theory Spec2Isabelle
  imports Main
begin

section \<open>JavaScript values, exceptions and HTTP responses\<close>

text \<open>
  The handlers of \<^verbatim>\<open>routes/User.route.js\<close>, \<^verbatim>\<open>routes/Category.route.js\<close> and
  \<^verbatim>\<open>routes/Product.route.js\<close> read untyped JSON bodies and answer with JSON bodies, so both
  are values of one type of JavaScript values. A signed JSON Web Token is kept symbolic:
  \<open>Jwt payload key\<close> is the token that \<^verbatim>\<open>jsonwebtoken\<close> signs over \<open>payload\<close> with the
  secret \<open>key\<close>; its compact encoding and its HMAC are not reproduced.
\<close>

datatype jsval =
    Undefined
  | Null
  | Bool bool
  | Num int
  | Str string
  | Arr "jsval list"
  | Obj "(string \<times> jsval) list"
  | Jwt "(string \<times> jsval) list" string

text \<open>
  A thrown JavaScript error object. \<open>message\<close> and \<open>stack\<close> of an \<^verbatim>\<open>Error\<close> are not
  enumerable; \<open>own_props\<close> are the enumerable properties that the thrower assigned (the ORM
  and the database driver assign \<^verbatim>\<open>name\<close>, \<^verbatim>\<open>parent\<close>, \<^verbatim>\<open>original\<close>, \<^verbatim>\<open>sql\<close>, ...).
\<close>

datatype exn = Exn (message: string) (stack: string) (own_props: "(string \<times> jsval) list")

text \<open>What \<^verbatim>\<open>res.json\<close> writes for an error object: its own enumerable properties.\<close>

definition exn_json :: "exn \<Rightarrow> jsval" where
  "exn_json e = Obj (own_props e)"

record response =
  status :: nat
  body :: jsval

text \<open>
  An \<^verbatim>\<open>async\<close> handler either sends a response or its promise rejects: the exception
  leaves the handler uncaught and the handler sends nothing.
\<close>

datatype outcome = Responded response | Rejected exn

subsection \<open>Truthiness and property access\<close>

fun truthy :: "jsval \<Rightarrow> bool" where
  "truthy Undefined = False"
| "truthy Null = False"
| "truthy (Bool b) = b"
| "truthy (Num n) = (n \<noteq> 0)"
| "truthy (Str s) = (s \<noteq> [])"
| "truthy (Arr xs) = True"
| "truthy (Obj kvs) = True"
| "truthy (Jwt p k) = True"

definition is_digit :: "char \<Rightarrow> bool" where
  "is_digit c = (48 \<le> (of_char c :: nat) \<and> (of_char c :: nat) \<le> 57)"

definition digit_val :: "char \<Rightarrow> nat" where
  "digit_val c = of_char c - 48"

definition parse_nat :: "string \<Rightarrow> nat" where
  "parse_nat ds = foldl (\<lambda>n c. 10 * n + digit_val c) 0 ds"

text \<open>
  An array index is a property name in canonical decimal form (\<^verbatim>\<open>"0"\<close>, \<^verbatim>\<open>"17"\<close>; not
  \<^verbatim>\<open>"01"\<close>).
\<close>

definition array_index :: "string \<Rightarrow> nat option" where
  "array_index k =
     (if k = [] \<or> \<not> list_all is_digit k then None
      else if hd k = CHR ''0'' \<and> length k > 1 then None
      else Some (parse_nat k))"

text \<open>
  \<open>get_prop v k\<close> is \<^verbatim>\<open>v[k]\<close> for a value that is neither \<^verbatim>\<open>undefined\<close> nor
  \<^verbatim>\<open>null\<close>; it is also what the destructuring \<^verbatim>\<open>const {k} = v\<close> binds. On a
  \<open>nullish\<close> value JavaScript throws a TypeError instead, which the handlers below write
  out before they read a property.
\<close>

fun nullish :: "jsval \<Rightarrow> bool" where
  "nullish Undefined = True"
| "nullish Null = True"
| "nullish v = False"

definition TypeError_destructure :: exn where
  "TypeError_destructure = Exn ''Cannot destructure property of undefined or null'' [] []"

fun get_prop :: "jsval \<Rightarrow> string \<Rightarrow> jsval" where
  "get_prop (Obj kvs) k = (case map_of kvs k of Some v \<Rightarrow> v | None \<Rightarrow> Undefined)"
| "get_prop (Arr xs) k =
     (if k = ''length'' then Num (int (length xs))
      else (case array_index k of
              Some i \<Rightarrow> (if i < length xs then xs ! i else Undefined)
            | None \<Rightarrow> Undefined))"
| "get_prop v k = Undefined"

section \<open>The store behind the ORM\<close>

text \<open>
  Modelled from the spec: \<^verbatim>\<open>models/User.model.js\<close> and \<^verbatim>\<open>db.js\<close> are not among the
  sources. The spec's Credential Store "persists user records {id, name, email,
  password-hash, role}" and "exposes lookup-by-email and create", the lookup being an
  exact match. The Category and Product tables follow \<^verbatim>\<open>models/Category.model.js\<close> and
  \<^verbatim>\<open>models/Product.model.js\<close>. Rows are kept in insertion order; the timestamp columns
  that the ORM adds are left out.
\<close>

record user =
  u_id :: nat
  u_name :: jsval
  u_email :: jsval
  u_password :: jsval
  u_role :: jsval

record category =
  c_id :: nat
  c_name :: jsval

record product =
  p_id :: nat
  p_name :: jsval
  p_description :: jsval
  p_price :: jsval
  p_categoryId :: jsval

text \<open>
  Every ORM call may throw: a lost connection, a constraint of the schema, a validator of
  the model. Which calls the store rejects, and with which error object, is a parameter
  of the store (\<open>rejects\<close>), so that the handlers are modelled for every such behaviour.
\<close>

datatype store_call =
    Call_User_findOne jsval
  | Call_User_create jsval jsval jsval jsval
  | Call_Category_findAll
  | Call_Category_destroy string
  | Call_Product_update jsval jsval jsval jsval string
  | Call_Product_findOne string

record store =
  users :: "user list"
  categories :: "category list"
  products :: "product list"
  next_user_id :: nat
  rejects :: "store_call \<Rightarrow> exn option"

definition user_json :: "user \<Rightarrow> jsval" where
  "user_json u =
     Obj [(''id'', Num (int (u_id u))), (''name'', u_name u), (''email'', u_email u),
          (''password'', u_password u), (''role'', u_role u)]"

definition category_json :: "category \<Rightarrow> jsval" where
  "category_json c = Obj [(''id'', Num (int (c_id c))), (''name'', c_name c)]"

text \<open>\<^verbatim>\<open>User.findOne({where: {email}})\<close>: the first row with exactly this email, or null.\<close>

definition User_findOne :: "store \<Rightarrow> jsval \<Rightarrow> exn + user option" where
  "User_findOne s email =
     (case rejects s (Call_User_findOne email) of
        Some err \<Rightarrow> Inl err
      | None \<Rightarrow> Inr (find (\<lambda>u. u_email u = email) (users s)))"

text \<open>\<^verbatim>\<open>User.create({name, email, password, role})\<close>: a new row under a fresh id.\<close>

definition User_create :: "store \<Rightarrow> jsval \<Rightarrow> jsval \<Rightarrow> jsval \<Rightarrow> jsval \<Rightarrow> exn + user \<times> store" where
  "User_create s name email password role =
     (case rejects s (Call_User_create name email password role) of
        Some err \<Rightarrow> Inl err
      | None \<Rightarrow>
          (let user = \<lparr>u_id = next_user_id s, u_name = name, u_email = email,
                        u_password = password, u_role = role\<rparr>
           in Inr (user, s\<lparr>users := users s @ [user], next_user_id := Suc (next_user_id s)\<rparr>)))"

text \<open>
  A route parameter is a string; a row matches \<^verbatim>\<open>where: {id}\<close> when the string is the
  decimal numeral of the row's id.
\<close>

definition id_matches :: "string \<Rightarrow> nat \<Rightarrow> bool" where
  "id_matches id' n = (id' \<noteq> [] \<and> list_all is_digit id' \<and> parse_nat id' = n)"

text \<open>\<^verbatim>\<open>Category.findAll()\<close>: an array of all rows.\<close>

definition Category_findAll :: "store \<Rightarrow> exn + category list" where
  "Category_findAll s =
     (case rejects s Call_Category_findAll of
        Some err \<Rightarrow> Inl err
      | None \<Rightarrow> Inr (categories s))"

text \<open>\<^verbatim>\<open>Category.destroy({where: {id}})\<close>: deletes the matching rows, returns their number.\<close>

definition Category_destroy :: "store \<Rightarrow> string \<Rightarrow> exn + nat \<times> store" where
  "Category_destroy s id' =
     (case rejects s (Call_Category_destroy id') of
        Some err \<Rightarrow> Inl err
      | None \<Rightarrow>
          Inr (length (filter (\<lambda>c. id_matches id' (c_id c)) (categories s)),
               s\<lparr>categories := filter (\<lambda>c. \<not> id_matches id' (c_id c)) (categories s)\<rparr>))"

text \<open>
  \<^verbatim>\<open>Product.update(values, {where: {id}})\<close>: the ORM leaves out the values that are
  \<^verbatim>\<open>undefined\<close>, writes the others to the matching rows, and resolves to a one-element
  array holding the number of affected rows.
\<close>

definition assign :: "jsval \<Rightarrow> jsval \<Rightarrow> jsval" where
  "assign new old = (if new = Undefined then old else new)"

definition Product_update ::
  "store \<Rightarrow> jsval \<Rightarrow> jsval \<Rightarrow> jsval \<Rightarrow> jsval \<Rightarrow> string \<Rightarrow> exn + jsval \<times> store" where
  "Product_update s name description price categoryId id' =
     (case rejects s (Call_Product_update name description price categoryId id') of
        Some err \<Rightarrow> Inl err
      | None \<Rightarrow>
          Inr (Arr [Num (int (length (filter (\<lambda>p. id_matches id' (p_id p)) (products s))))],
               s\<lparr>products :=
                   map (\<lambda>p. if id_matches id' (p_id p)
                            then p\<lparr>p_name := assign name (p_name p),
                                   p_description := assign description (p_description p),
                                   p_price := assign price (p_price p),
                                   p_categoryId := assign categoryId (p_categoryId p)\<rparr>
                            else p)
                       (products s)\<rparr>))"

text \<open>
  \<^verbatim>\<open>Product.findOne({where: {id}, include: {model: Category, as: "Category"}})\<close>: the
  first matching row with its category joined in, or null.
\<close>

definition product_json :: "store \<Rightarrow> product \<Rightarrow> jsval" where
  "product_json s p =
     Obj [(''id'', Num (int (p_id p))), (''name'', p_name p),
          (''description'', p_description p), (''price'', p_price p),
          (''categoryId'', p_categoryId p),
          (''Category'',
             (case find (\<lambda>c. Num (int (c_id c)) = p_categoryId p) (categories s) of
                Some c \<Rightarrow> category_json c
              | None \<Rightarrow> Null))]"

definition Product_findOne :: "store \<Rightarrow> string \<Rightarrow> exn + jsval" where
  "Product_findOne s id' =
     (case rejects s (Call_Product_findOne id') of
        Some err \<Rightarrow> Inl err
      | None \<Rightarrow>
          Inr (case find (\<lambda>p. id_matches id' (p_id p)) (products s) of
                 Some p \<Rightarrow> product_json s p
               | None \<Rightarrow> Null))"

section \<open>The libraries: bcrypt and jsonwebtoken\<close>

text \<open>
  \<open>env\<close> is what a handler reads from its process: the environment variable
  \<^verbatim>\<open>SECRET_KEY\<close> (unset, or a string), the clock in seconds since the epoch, and the
  two \<^verbatim>\<open>bcrypt\<close> functions. \<^verbatim>\<open>bcrypt.hash\<close> draws a random salt and both functions reject
  arguments of the wrong type, so they are parameters that return an error or a result;
  what the theorems need of them is stated where it is needed.
\<close>

record env =
  SECRET_KEY :: "string option"
  now :: nat
  bcrypt_hash :: "jsval \<Rightarrow> nat \<Rightarrow> exn + string"
  bcrypt_compare :: "jsval \<Rightarrow> jsval \<Rightarrow> exn + bool"

text \<open>
  The time spans of \<^verbatim>\<open>expiresIn\<close>, in milliseconds as the \<^verbatim>\<open>ms\<close> package reads them:
  a decimal numeral followed by one of the units \<^verbatim>\<open>s\<close>, \<^verbatim>\<open>m\<close>, \<^verbatim>\<open>h\<close>, \<^verbatim>\<open>d\<close>.
\<close>

definition unit_ms :: "string \<Rightarrow> nat option" where
  "unit_ms u =
     (if u = ''s'' then Some 1000
      else if u = ''m'' then Some 60000
      else if u = ''h'' then Some 3600000
      else if u = ''d'' then Some 86400000
      else None)"

definition ms :: "string \<Rightarrow> nat option" where
  "ms str =
     (let ds = takeWhile is_digit str; u = dropWhile is_digit str
      in if ds = [] then None
         else (case unit_ms u of
                 Some k \<Rightarrow> Some (parse_nat ds * k)
               | None \<Rightarrow> None))"

text \<open>
  \<^verbatim>\<open>jwt.sign(payload, secret, {expiresIn})\<close> at clock reading \<open>t\<close>: throws when the
  secret is missing or empty; otherwise signs the payload, to which it adds \<^verbatim>\<open>iat\<close>, the
  clock reading, and \<^verbatim>\<open>exp\<close>, the time span later. A property whose value is
  \<^verbatim>\<open>undefined\<close> is not serialised.
\<close>

definition jwt_sign :: "(string \<times> jsval) list \<Rightarrow> string option \<Rightarrow> string \<Rightarrow> nat \<Rightarrow> exn + jsval" where
  "jwt_sign payload secret expiresIn t =
     (case secret of
        None \<Rightarrow> Inl (Exn ''secretOrPrivateKey must have a value'' [] [])
      | Some key \<Rightarrow>
          if key = [] then Inl (Exn ''secretOrPrivateKey must have a value'' [] [])
          else (case ms expiresIn of
                  None \<Rightarrow> Inl (Exn ''expiresIn should be a number of seconds or string representing a timespan'' [] [])
                | Some span \<Rightarrow>
                    Inr (Jwt (filter (\<lambda>kv. snd kv \<noteq> Undefined) payload
                              @ [(''iat'', Num (int t)), (''exp'', Num (int (t + span div 1000)))])
                             key)))"

text \<open>\<^verbatim>\<open>jwt.decode(token)\<close>: the payload of a token, unverified; null for anything else.\<close>

definition jwt_decode :: "jsval \<Rightarrow> jsval" where
  "jwt_decode token = (case token of Jwt payload key \<Rightarrow> Obj payload | _ \<Rightarrow> Null)"

section \<open>routes/User.route.js\<close>

text \<open>
  A request as the handlers see it: the bearer token of the \<^verbatim>\<open>Authorization\<close> header
  (if one is presented), \<^verbatim>\<open>req.params.id\<close>, \<^verbatim>\<open>req.body\<close>, and the identity that the
  gate attaches to the request (the spec's request context); no handler reads the last.
\<close>

record identity =
  subjectId :: jsval
  role :: jsval

record request =
  bearer :: "jsval option"
  params_id :: string
  req_body :: jsval
  req_user :: "identity option"

text \<open>
  \<^verbatim>\<open>userRoute.post('/register', ...)\<close>. The lookup and the hashing stand before the
  \<^verbatim>\<open>try\<close>: when one of them throws, the handler's promise rejects. Only
  \<^verbatim>\<open>User.create\<close> is inside the \<^verbatim>\<open>try\<close>.
\<close>

definition register_handler :: "env \<Rightarrow> request \<Rightarrow> store \<Rightarrow> outcome \<times> store" where
  "register_handler env req s =
     (if nullish (req_body req) then (Rejected TypeError_destructure, s)
      else
        let name = get_prop (req_body req) ''name'';
            email = get_prop (req_body req) ''email'';
            password = get_prop (req_body req) ''password'';
            role = get_prop (req_body req) ''role''
        in (case User_findOne s email of
              Inl err \<Rightarrow> (Rejected err, s)
            | Inr (Some existingUser) \<Rightarrow>
                (Responded \<lparr>status = 400, body = Obj [(''message'', Str ''User already exists'')]\<rparr>, s)
            | Inr None \<Rightarrow>
                (case bcrypt_hash env password 10 of
                   Inl err \<Rightarrow> (Rejected err, s)
                 | Inr hashPassword \<Rightarrow>
                     (case User_create s name email (Str hashPassword) role of
                        Inr (user, s') \<Rightarrow>
                          (Responded \<lparr>status = 201, body = Obj [(''user'', user_json user)]\<rparr>, s')
                      | Inl err \<Rightarrow>
                          (Responded \<lparr>status = 500, body = Obj [(''err'', exn_json err)]\<rparr>, s)))))"

text \<open>
  \<^verbatim>\<open>userRoute.post('/login', ...)\<close>. Everything after the destructuring of the body is
  inside the \<^verbatim>\<open>try\<close>. The \<^verbatim>\<open>console.log(user)\<close> writes to the process log only.
\<close>

definition login_handler :: "env \<Rightarrow> request \<Rightarrow> store \<Rightarrow> outcome \<times> store" where
  "login_handler env req s =
     (if nullish (req_body req) then (Rejected TypeError_destructure, s)
      else
        let email = get_prop (req_body req) ''email'';
            password = get_prop (req_body req) ''password''
        in (case User_findOne s email of
              Inl err \<Rightarrow>
                (Responded \<lparr>status = 500, body = Obj [(''err'', exn_json err)]\<rparr>, s)
            | Inr (Some user) \<Rightarrow>
                (case bcrypt_compare env password (u_password user) of
                   Inl err \<Rightarrow>
                     (Responded \<lparr>status = 500, body = Obj [(''err'', exn_json err)]\<rparr>, s)
                 | Inr isPasswordValid \<Rightarrow>
                     if isPasswordValid then
                       (case jwt_sign [(''id'', Num (int (u_id user))), (''role'', u_role user)]
                               (SECRET_KEY env) ''1h'' (now env) of
                          Inl err \<Rightarrow>
                            (Responded \<lparr>status = 500, body = Obj [(''err'', exn_json err)]\<rparr>, s)
                        | Inr token \<Rightarrow>
                            (Responded \<lparr>status = 200,
                                        body = Obj [(''user'', user_json user), (''token'', token)]\<rparr>, s))
                     else
                       (Responded \<lparr>status = 401, body = Obj [(''message'', Str ''Invalid credentials'')]\<rparr>, s))
            | Inr None \<Rightarrow>
                (Responded \<lparr>status = 401, body = Obj [(''message'', Str ''Invalid credentials'')]\<rparr>, s)))"

section \<open>routes/Category.route.js and routes/Product.route.js\<close>

text \<open>
  \<^verbatim>\<open>categoryRoute.get("/", ...)\<close>, the handler behind the gate. \<^verbatim>\<open>!categories.length\<close>
  is the falsiness of the array's length.
\<close>

definition category_get_handler :: "request \<Rightarrow> store \<Rightarrow> outcome \<times> store" where
  "category_get_handler req s =
     (case Category_findAll s of
        Inr cs \<Rightarrow>
          if \<not> truthy (get_prop (Arr (map category_json cs)) ''length'') then
            (Responded \<lparr>status = 404, body = Obj [(''message'', Str ''No categories found'')]\<rparr>, s)
          else
            (Responded \<lparr>status = 200, body = Obj [(''categories'', Arr (map category_json cs))]\<rparr>, s)
      | Inl err \<Rightarrow>
          (Responded \<lparr>status = 500, body = Obj [(''error'', Str (message err))]\<rparr>, s))"

text \<open>\<^verbatim>\<open>categoryRoute.delete("/:id", ...)\<close>, the handler behind the gate.\<close>

definition category_delete_handler :: "request \<Rightarrow> store \<Rightarrow> outcome \<times> store" where
  "category_delete_handler req s =
     (case Category_destroy s (params_id req) of
        Inr (rowsDeleted, s') \<Rightarrow>
          if \<not> truthy (Num (int rowsDeleted)) then
            (Responded \<lparr>status = 404, body = Obj [(''message'', Str ''Category not found'')]\<rparr>, s')
          else
            (Responded \<lparr>status = 200, body = Obj [(''message'', Str ''Category deleted successfully'')]\<rparr>, s')
      | Inl err \<Rightarrow>
          (Responded \<lparr>status = 500, body = Obj [(''error'', Str (message err))]\<rparr>, s))"

text \<open>
  \<^verbatim>\<open>productRoute.patch('/:id', ...)\<close>, the handler behind the gate. The body is
  destructured before the \<^verbatim>\<open>try\<close>; \<^verbatim>\<open>const {updated} = await Product.update(...)\<close>
  reads the property \<^verbatim>\<open>updated\<close> of what the update resolves to.
\<close>

definition product_patch_handler :: "request \<Rightarrow> store \<Rightarrow> outcome \<times> store" where
  "product_patch_handler req s =
     (if nullish (req_body req) then (Rejected TypeError_destructure, s)
      else
        let name = get_prop (req_body req) ''name'';
            description = get_prop (req_body req) ''description'';
            price = get_prop (req_body req) ''price'';
            categoryId = get_prop (req_body req) ''categoryId''
        in (case Product_update s name description price categoryId (params_id req) of
              Inl err \<Rightarrow>
                (Responded \<lparr>status = 500, body = Obj [(''err'', exn_json err)]\<rparr>, s)
            | Inr (result, s') \<Rightarrow>
                if nullish result then
                  (Responded \<lparr>status = 500, body = Obj [(''err'', exn_json TypeError_destructure)]\<rparr>, s')
                else
                  let updated = get_prop result ''updated'' in
                  if truthy updated then
                    (case Product_findOne s' (params_id req) of
                       Inl err \<Rightarrow>
                         (Responded \<lparr>status = 500, body = Obj [(''err'', exn_json err)]\<rparr>, s')
                     | Inr updateProd \<Rightarrow>
                         (Responded \<lparr>status = 200, body = Obj [(''product'', updateProd)]\<rparr>, s'))
                  else
                    (Responded \<lparr>status = 200,
                                body = Obj [(''message'', Str ''Product updated successfully'')]\<rparr>, s')))"

section \<open>The gate: token verifier and role authorizer\<close>

text \<open>
  Modelled from the spec: \<^verbatim>\<open>middelware/auth.js\<close> (\<^verbatim>\<open>authenticateToken\<close>) and
  \<^verbatim>\<open>middelware/authorization.js\<close> (\<^verbatim>\<open>authorizeRoles\<close>) are not among the sources; the
  routes only name them. The definitions follow sections 4.3, 4.4 and 6 of the spec.

  Token Verifier: "decode and check signature against the process secret; check expiry
  against current time; on success produce Identity{subjectId, role}; on any failure
  (missing token, malformed token, bad signature, expired) produce a uniform AuthError";
  "missing/invalid/expired token -> unauthorized (401-equivalent)". A token is expired
  from the second \<^verbatim>\<open>exp\<close> on, and a claim set without \<^verbatim>\<open>exp\<close> is malformed.

  Role Authorizer: "permit if identity.role \<in> allowedRoles, else deny with a
  forbidden-equivalent error (403-equivalent)".
\<close>

datatype auth_error = Invalid | Forbidden

definition verify :: "env \<Rightarrow> jsval option \<Rightarrow> auth_error + identity" where
  "verify env rawToken =
     (case rawToken of
        Some (Jwt payload key) \<Rightarrow>
          (if SECRET_KEY env \<noteq> Some key then Inl Invalid
           else (case map_of payload ''exp'' of
                   Some (Num expiresAt) \<Rightarrow>
                     if int (now env) < expiresAt
                     then Inr \<lparr>subjectId = get_prop (Obj payload) ''id'',
                               role = get_prop (Obj payload) ''role''\<rparr>
                     else Inl Invalid
                 | _ \<Rightarrow> Inl Invalid))
      | _ \<Rightarrow> Inl Invalid)"

definition authorize :: "identity \<Rightarrow> jsval list \<Rightarrow> auth_error + unit" where
  "authorize ident allowedRoles =
     (if role ident \<in> set allowedRoles then Inr () else Inl Forbidden)"

definition auth_error_status :: "auth_error \<Rightarrow> nat" where
  "auth_error_status e = (case e of Invalid \<Rightarrow> 401 | Forbidden \<Rightarrow> 403)"

text \<open>
  The gate in front of a handler, as the routes compose it:
  \<^verbatim>\<open>route(path, authenticateToken, authorizeRoles([...]), handler)\<close>. A failing middleware
  "short-circuits the request ... before the handler runs"; a passing one hands the
  request, with the identity attached, to the next. The spec asks for "a minimal
  message" in the error body and does not give its words: \<open>msg\<close> is that message.
\<close>

definition gated ::
  "(auth_error \<Rightarrow> jsval) \<Rightarrow> env \<Rightarrow> jsval list \<Rightarrow> (request \<Rightarrow> store \<Rightarrow> outcome \<times> store)
     \<Rightarrow> request \<Rightarrow> store \<Rightarrow> outcome \<times> store" where
  "gated msg env allowedRoles handler req s =
     (case verify env (bearer req) of
        Inl e \<Rightarrow> (Responded \<lparr>status = auth_error_status e, body = msg e\<rparr>, s)
      | Inr ident \<Rightarrow>
          (case authorize ident allowedRoles of
             Inl e \<Rightarrow> (Responded \<lparr>status = auth_error_status e, body = msg e\<rparr>, s)
           | Inr _ \<Rightarrow>
               handler (req\<lparr>req_user := Some ident\<rparr>) s))"

text \<open>The three gated routes, each with \<^verbatim>\<open>authorizeRoles(["admin"])\<close>.\<close>

definition category_get_route ::
  "(auth_error \<Rightarrow> jsval) \<Rightarrow> env \<Rightarrow> request \<Rightarrow> store \<Rightarrow> outcome \<times> store" where
  "category_get_route msg env = gated msg env [Str ''admin''] category_get_handler"

definition category_delete_route ::
  "(auth_error \<Rightarrow> jsval) \<Rightarrow> env \<Rightarrow> request \<Rightarrow> store \<Rightarrow> outcome \<times> store" where
  "category_delete_route msg env = gated msg env [Str ''admin''] category_delete_handler"

definition product_patch_route ::
  "(auth_error \<Rightarrow> jsval) \<Rightarrow> env \<Rightarrow> request \<Rightarrow> store \<Rightarrow> outcome \<times> store" where
  "product_patch_route msg env = gated msg env [Str ''admin''] product_patch_handler"

section \<open>Concrete inputs\<close>

text \<open>
  A stand-in for \<^verbatim>\<open>bcrypt\<close> at which the theorems are instantiated. It keeps the
  library's argument checks (\<^verbatim>\<open>hash\<close> rejects data that is not a string, \<^verbatim>\<open>compare\<close>
  rejects arguments that are not strings and answers false on a hash it cannot read);
  the digest itself is replaced by the reversed plaintext behind the \<^verbatim>\<open>$2b$10$\<close> prefix.
\<close>

definition stub_hash :: "jsval \<Rightarrow> nat \<Rightarrow> exn + string" where
  "stub_hash data rounds =
     (case data of
        Str p \<Rightarrow> Inr (''$2b$10$'' @ rev p)
      | Undefined \<Rightarrow> Inl (Exn ''data and salt arguments required'' [] [])
      | Null \<Rightarrow> Inl (Exn ''data and salt arguments required'' [] [])
      | _ \<Rightarrow> Inl (Exn ''data must be a string or Buffer and salt must either be a salt string or a number of rounds'' [] []))"

definition stub_compare :: "jsval \<Rightarrow> jsval \<Rightarrow> exn + bool" where
  "stub_compare data hashed =
     (case (data, hashed) of
        (Str p, Str h) \<Rightarrow> Inr (h = ''$2b$10$'' @ rev p)
      | _ \<Rightarrow> Inl (Exn ''data and hash must be strings'' [] []))"

definition env0 :: env where
  "env0 = \<lparr>SECRET_KEY = Some ''s3cret'', now = 1700000000,
           bcrypt_hash = stub_hash, bcrypt_compare = stub_compare\<rparr>"

definition store0 :: store where
  "store0 = \<lparr>users = [], categories = [], products = [], next_user_id = 1,
             rejects = (\<lambda>c. None)\<rparr>"

text \<open>The store after user A of the spec's end-to-end example has registered.\<close>

definition user_A :: user where
  "user_A = \<lparr>u_id = 1, u_name = Str ''A'', u_email = Str ''a@x.com'',
             u_password = Str ''$2b$10$wp'', u_role = Undefined\<rparr>"

definition store_A :: store where
  "store_A = \<lparr>users = [user_A], categories = [], products = [], next_user_id = 2,
              rejects = (\<lambda>c. None)\<rparr>"

definition post :: "jsval \<Rightarrow> request" where
  "post b = \<lparr>bearer = None, params_id = [], req_body = b, req_user = None\<rparr>"

definition register_A :: request where
  "register_A = post (Obj [(''name'', Str ''A''), (''email'', Str ''a@x.com''), (''password'', Str ''pw'')])"

definition login_A :: request where
  "login_A = post (Obj [(''email'', Str ''a@x.com''), (''password'', Str ''pw'')])"





definition login_no_password :: request where
  "login_no_password = post (Obj [(''email'', Str ''a@x.com'')])"

definition register_no_password :: request where
  "register_no_password = post (Obj [(''name'', Str ''A''), (''email'', Str ''a@x.com'')])"

text \<open>The token that \<open>login_A\<close> is answered with, and a token of a user with role "user".\<close>

definition token_A :: jsval where
  "token_A = Jwt [(''id'', Num 1), (''iat'', Num 1700000000), (''exp'', Num 1700003600)] ''s3cret''"

definition token_user :: jsval where
  "token_user = Jwt [(''id'', Num 1), (''role'', Str ''user''), (''iat'', Num 1700000000),
                     (''exp'', Num 1700003600)] ''s3cret''"

text \<open>The gate's message bodies are left empty here.\<close>

definition msg0 :: "auth_error \<Rightarrow> jsval" where
  "msg0 e = Undefined"

text \<open>
  The error object of a refused database connection, as the ORM throws it: it wraps the
  driver's error under \<^verbatim>\<open>parent\<close>. One store rejects every call with it, another only
  \<^verbatim>\<open>User.create\<close>.
\<close>

definition driver_error :: exn where
  "driver_error =
     Exn ''connect ECONNREFUSED 127.0.0.1:3306''
         ''SequelizeConnectionRefusedError: connect ECONNREFUSED 127.0.0.1:3306 at ConnectionManager.connect''
         [(''name'', Str ''SequelizeConnectionRefusedError''),
          (''parent'', Obj [(''errno'', Num (- 111)), (''code'', Str ''ECONNREFUSED''),
                            (''syscall'', Str ''connect''), (''address'', Str ''127.0.0.1''),
                            (''port'', Num 3306), (''fatal'', Bool True)])]"

definition store_down :: store where
  "store_down = store_A\<lparr>rejects := (\<lambda>c. Some driver_error)\<rparr>"

definition store_create_fails :: store where
  "store_create_fails =
     store0\<lparr>rejects := (\<lambda>c. case c of Call_User_create n e p r \<Rightarrow> Some driver_error | _ \<Rightarrow> None)\<rparr>"

text \<open>A request on \<^verbatim>\<open>/:id\<close> with id 1, a JSON body and, possibly, a bearer token.\<close>

definition on_id_1 :: "jsval option \<Rightarrow> jsval \<Rightarrow> request" where
  "on_id_1 tok b = \<lparr>bearer = tok, params_id = ''1'', req_body = b, req_user = None\<rparr>"

section \<open>Properties\<close>

subsection \<open>Auxiliary facts\<close>

lemma get_prop_updated_Arr: "get_prop (Arr xs) ''updated'' = Undefined"
  by (simp add: array_index_def is_digit_def)

lemma ms_1h: "ms ''1h'' = Some 3600000"
  by (simp add: ms_def is_digit_def unit_ms_def parse_nat_def digit_val_def)

lemma jwt_sign_1h:
  "key \<noteq> [] \<Longrightarrow>
   jwt_sign payload (Some key) ''1h'' t =
     Inr (Jwt (filter (\<lambda>kv. snd kv \<noteq> Undefined) payload
               @ [(''iat'', Num (int t)), (''exp'', Num (int (t + 3600)))]) key)"
  by (simp add: jwt_sign_def ms_1h)

lemma jwt_sign_Inr:
  "jwt_sign payload secret ''1h'' t = Inr token \<Longrightarrow>
   \<exists>key. secret = Some key \<and> key \<noteq> [] \<and>
     token = Jwt (filter (\<lambda>kv. snd kv \<noteq> Undefined) payload
               @ [(''iat'', Num (int t)), (''exp'', Num (int (t + 3600)))]) key"
  by (auto simp: jwt_sign_def ms_1h split: option.splits if_splits)

lemma register_201:
  assumes "register_handler env req s = (Responded r, s')" and "status r = 201"
  shows "\<not> nullish (req_body req)
       \<and> User_findOne s (get_prop (req_body req) ''email'') = Inr None
       \<and> (\<exists>h user. bcrypt_hash env (get_prop (req_body req) ''password'') 10 = Inr h
            \<and> User_create s (get_prop (req_body req) ''name'') (get_prop (req_body req) ''email'')
                 (Str h) (get_prop (req_body req) ''role'') = Inr (user, s')
            \<and> body r = Obj [(''user'', user_json user)])"
  using assms
  by (auto simp: register_handler_def Let_def split: if_splits sum.splits option.splits)

lemma User_create_Inr:
  assumes "User_create s nm email password rl = Inr (user, s')"
  shows "user = \<lparr>u_id = next_user_id s, u_name = nm, u_email = email,
                  u_password = password, u_role = rl\<rparr>
       \<and> users s' = users s @ [user] \<and> rejects s' = rejects s
       \<and> categories s' = categories s \<and> products s' = products s"
  using assms by (auto simp: User_create_def Let_def split: option.splits)

lemma find_append_new: "find P xs = None \<Longrightarrow> P x \<Longrightarrow> find P (xs @ [x]) = Some x"
  by (induction xs) (auto split: if_splits)

lemma findOne_after_create:
  assumes "User_findOne s email = Inr None"
    and "User_create s nm email password rl = Inr (user, s')"
  shows "User_findOne s' email = Inr (Some user)"
proof -
  from assms(1) have rej: "rejects s (Call_User_findOne email) = None"
    and none: "find (\<lambda>u. u_email u = email) (users s) = None"
    by (auto simp: User_findOne_def split: option.splits)
  from User_create_Inr [OF assms(2)]
  have u: "u_email user = email" and us: "users s' = users s @ [user]" and r: "rejects s' = rejects s"
    by auto
  have "find (\<lambda>u. u_email u = email) (users s @ [user]) = Some user"
    using none u by (simp add: find_append_new)
  then show ?thesis
    using rej us r by (simp add: User_findOne_def)
qed

lemma login_200:
  assumes "login_handler env req s = (Responded r, s')" and "status r = 200"
  shows "\<exists>user token.
           User_findOne s (get_prop (req_body req) ''email'') = Inr (Some user)
         \<and> bcrypt_compare env (get_prop (req_body req) ''password'') (u_password user) = Inr True
         \<and> jwt_sign [(''id'', Num (int (u_id user))), (''role'', u_role user)]
              (SECRET_KEY env) ''1h'' (now env) = Inr token
         \<and> body r = Obj [(''user'', user_json user), (''token'', token)] \<and> s' = s"
  using assms
  by (auto simp: login_handler_def Let_def split: if_splits sum.splits option.splits)

lemma verify_issued:
  assumes "SECRET_KEY env = Some key"
  shows "verify (env\<lparr>now := t\<rparr>)
           (Some (Jwt (filter (\<lambda>kv. snd kv \<noteq> Undefined) [(''id'', i), (''role'', rl)]
                       @ [(''iat'', Num (int t0)), (''exp'', Num (int (t0 + 3600)))]) key)) =
         (if t < t0 + 3600
          then Inr \<lparr>subjectId = (if i = Undefined then Undefined else i), role = rl\<rparr>
          else Inl Invalid)"
  using assms by (auto simp: verify_def)

lemmas eval_defs =
  register_handler_def login_handler_def User_findOne_def User_create_def Let_def
  env0_def store0_def store_A_def user_A_def register_A_def login_A_def
  post_def stub_hash_def stub_compare_def user_json_def

subsection \<open>GET /categories\<close>

text \<open>
  Claim C10. Once the gate has let a request through and \<^verbatim>\<open>Category.findAll\<close> resolves,
  \<^verbatim>\<open>GET /categories\<close> answers 404 with the message "No categories found" when the
  category table is empty, and 200 with the list of all categories when it holds at least
  one row; the store is not changed.
\<close>

theorem category_get_empty_404_else_200:
  assumes "rejects s Call_Category_findAll = None"
  shows "category_get_handler req s =
           (if categories s = []
            then (Responded \<lparr>status = 404, body = Obj [(''message'', Str ''No categories found'')]\<rparr>, s)
            else (Responded \<lparr>status = 200,
                             body = Obj [(''categories'', Arr (map category_json (categories s)))]\<rparr>, s))"
  using assms by (simp add: category_get_handler_def Category_findAll_def)

theorem category_get_witness:
  "rejects store0 Call_Category_findAll = None
   \<and> category_get_handler (on_id_1 None Undefined) store0 =
       (Responded \<lparr>status = 404, body = Obj [(''message'', Str ''No categories found'')]\<rparr>, store0)
   \<and> rejects (store0\<lparr>categories := [\<lparr>c_id = 1, c_name = Str ''Balls''\<rparr>]\<rparr>) Call_Category_findAll = None
   \<and> category_get_handler (on_id_1 None Undefined) (store0\<lparr>categories := [\<lparr>c_id = 1, c_name = Str ''Balls''\<rparr>]\<rparr>) =
       (Responded \<lparr>status = 200,
                   body = Obj [(''categories'', Arr [Obj [(''id'', Num 1), (''name'', Str ''Balls'')]])]\<rparr>,
        store0\<lparr>categories := [\<lparr>c_id = 1, c_name = Str ''Balls''\<rparr>]\<rparr>)"
proof -
  have a: "rejects store0 Call_Category_findAll = None"
    by (simp add: store0_def)
  have b: "rejects (store0\<lparr>categories := [\<lparr>c_id = 1, c_name = Str ''Balls''\<rparr>]\<rparr>) Call_Category_findAll = None"
    by (simp add: store0_def)
  show ?thesis
    using a b category_get_empty_404_else_200 [OF a, of "on_id_1 None Undefined"]
      category_get_empty_404_else_200 [OF b, of "on_id_1 None Undefined"]
    by (simp add: store0_def category_json_def)
qed

subsection \<open>PATCH /products/:id\<close>

text \<open>
  Claim C9. \<^verbatim>\<open>Product.update\<close> resolves to an array, whose property \<^verbatim>\<open>updated\<close> is
  \<^verbatim>\<open>undefined\<close>: whenever the update call returns, the handler answers 200 with the
  message "Product updated successfully" and never takes the branch that fetches the
  product. Whatever the request and the store (so also for a product id that no row has),
  a response of this handler never has status 404.
\<close>

theorem product_patch_always_message:
  "(\<not> nullish (req_body req)
      \<and> Product_update s (get_prop (req_body req) ''name'') (get_prop (req_body req) ''description'')
           (get_prop (req_body req) ''price'') (get_prop (req_body req) ''categoryId'') (params_id req)
         = Inr (result, s')
    \<longrightarrow> get_prop result ''updated'' = Undefined
       \<and> product_patch_handler req s =
           (Responded \<lparr>status = 200, body = Obj [(''message'', Str ''Product updated successfully'')]\<rparr>, s'))
   \<and> (\<forall>r. fst (product_patch_handler req s) = Responded r \<longrightarrow> status r \<noteq> 404)"
proof (intro conjI impI allI)
  assume a: "\<not> nullish (req_body req)
      \<and> Product_update s (get_prop (req_body req) ''name'') (get_prop (req_body req) ''description'')
           (get_prop (req_body req) ''price'') (get_prop (req_body req) ''categoryId'') (params_id req)
         = Inr (result, s')"
  then obtain n where res: "result = Arr [Num n]"
    by (auto simp: Product_update_def split: option.splits)
  show "get_prop result ''updated'' = Undefined"
    unfolding res by (rule get_prop_updated_Arr)
  then show "product_patch_handler req s =
           (Responded \<lparr>status = 200, body = Obj [(''message'', Str ''Product updated successfully'')]\<rparr>, s')"
    using a by (simp add: product_patch_handler_def Let_def res)
next
  fix r assume "fst (product_patch_handler req s) = Responded r"
  then show "status r \<noteq> 404"
    by (auto simp: product_patch_handler_def Let_def Product_update_def get_prop_updated_Arr
        split: if_splits option.splits sum.splits)
qed

theorem product_patch_witness:
  "\<not> nullish (req_body (on_id_1 None (Obj [(''price'', Num 5)])))
   \<and> Product_update store0 Undefined Undefined (Num 5) Undefined ''1'' = Inr (Arr [Num 0], store0)
   \<and> product_patch_handler (on_id_1 None (Obj [(''price'', Num 5)])) store0 =
       (Responded \<lparr>status = 200, body = Obj [(''message'', Str ''Product updated successfully'')]\<rparr>, store0)
   \<and> status \<lparr>status = 200, body = Obj [(''message'', Str ''Product updated successfully'')]\<rparr> \<noteq> 404"
proof -
  have u: "Product_update store0 Undefined Undefined (Num 5) Undefined ''1'' = Inr (Arr [Num 0], store0)"
    by (simp add: Product_update_def store0_def)
  have h: "\<not> nullish (req_body (on_id_1 None (Obj [(''price'', Num 5)])))"
    by (simp add: on_id_1_def)
  have g: "get_prop (req_body (on_id_1 None (Obj [(''price'', Num 5)]))) ''name'' = Undefined"
     "get_prop (req_body (on_id_1 None (Obj [(''price'', Num 5)]))) ''description'' = Undefined"
     "get_prop (req_body (on_id_1 None (Obj [(''price'', Num 5)]))) ''price'' = Num 5"
     "get_prop (req_body (on_id_1 None (Obj [(''price'', Num 5)]))) ''categoryId'' = Undefined"
     "params_id (on_id_1 None (Obj [(''price'', Num 5)])) = ''1''"
    by (simp_all add: on_id_1_def)
  from product_patch_always_message
    [of "on_id_1 None (Obj [(''price'', Num 5)])" store0 "Arr [Num 0]" store0]
  show ?thesis
    unfolding g using u h by simp
qed

subsection \<open>POST /user/register and POST /user/login\<close>

text \<open>
  Claim C1. When a registration is answered with 201 and a login with the same email and
  password follows on the store the registration left, the login is answered with 200
  and a body \<open>{user, token}\<close>: \<open>user\<close> is the registered record, the token is signed with
  the process secret, and its decoded claims carry the record's id and role. This needs
  of the process that \<^verbatim>\<open>SECRET_KEY\<close> is set and not empty, and of \<^verbatim>\<open>bcrypt\<close> that
  \<^verbatim>\<open>compare\<close> accepts the hash that \<^verbatim>\<open>hash\<close> gave for the same plaintext.
\<close>

theorem register_then_login_succeeds:
  assumes reg: "register_handler env req s = (Responded r, s')" and created: "status r = 201"
    and same: "\<not> nullish (req_body req')"
      "get_prop (req_body req') ''email'' = get_prop (req_body req) ''email''"
      "get_prop (req_body req') ''password'' = get_prop (req_body req) ''password''"
    and lib: "\<forall>h. bcrypt_hash env (get_prop (req_body req) ''password'') 10 = Inr h
                \<longrightarrow> bcrypt_compare env' (get_prop (req_body req) ''password'') (Str h) = Inr True"
    and key: "SECRET_KEY env' = Some key" "key \<noteq> []"
  shows "\<exists>user token payload.
           body r = Obj [(''user'', user_json user)]
         \<and> login_handler env' req' s' =
             (Responded \<lparr>status = 200, body = Obj [(''user'', user_json user), (''token'', token)]\<rparr>, s')
         \<and> token = Jwt payload key
         \<and> get_prop (jwt_decode token) ''id'' = Num (int (u_id user))
         \<and> get_prop (jwt_decode token) ''role'' = u_role user"
proof -
  from register_201 [OF reg created] obtain h user where
    nn: "\<not> nullish (req_body req)"
    and f: "User_findOne s (get_prop (req_body req) ''email'') = Inr None"
    and h: "bcrypt_hash env (get_prop (req_body req) ''password'') 10 = Inr h"
    and c: "User_create s (get_prop (req_body req) ''name'') (get_prop (req_body req) ''email'')
                 (Str h) (get_prop (req_body req) ''role'') = Inr (user, s')"
    and b: "body r = Obj [(''user'', user_json user)]"
    by blast
  have f': "User_findOne s' (get_prop (req_body req) ''email'') = Inr (Some user)"
    by (rule findOne_after_create [OF f c])
  have pw: "u_password user = Str h"
    using User_create_Inr [OF c] by simp
  have cmp: "bcrypt_compare env' (get_prop (req_body req) ''password'') (Str h) = Inr True"
    using lib h by blast
  let ?payload = "filter (\<lambda>kv. snd kv \<noteq> Undefined) [(''id'', Num (int (u_id user))), (''role'', u_role user)]
               @ [(''iat'', Num (int (now env'))), (''exp'', Num (int (now env' + 3600)))]"
  have login: "login_handler env' req' s' =
      (Responded \<lparr>status = 200, body = Obj [(''user'', user_json user), (''token'', Jwt ?payload key)]\<rparr>, s')"
    using nn f' pw cmp key same
    by (simp add: login_handler_def Let_def jwt_sign_1h)
  have d1: "get_prop (jwt_decode (Jwt ?payload key)) ''id'' = Num (int (u_id user))"
    by (simp add: jwt_decode_def)
  have d2: "get_prop (jwt_decode (Jwt ?payload key)) ''role'' = u_role user"
    by (simp add: jwt_decode_def)
  from b login d1 d2 show ?thesis by blast
qed

theorem register_then_login_witness:
  "register_handler env0 register_A store0 =
     (Responded \<lparr>status = 201, body = Obj [(''user'', user_json user_A)]\<rparr>, store_A)
   \<and> stub_compare (Str ''pw'') (Str ''$2b$10$wp'') = Inr True
   \<and> login_handler env0 login_A store_A =
     (Responded \<lparr>status = 200,
                 body = Obj [(''user'', user_json user_A),
                             (''token'', Jwt [(''id'', Num 1), (''iat'', Num 1700000000),
                                              (''exp'', Num 1700003600)] ''s3cret'')]\<rparr>, store_A)
   \<and> get_prop (jwt_decode (Jwt [(''id'', Num 1), (''iat'', Num 1700000000),
                                 (''exp'', Num 1700003600)] ''s3cret'')) ''id'' = Num 1"
  using register_then_login_succeeds
    [of env0 register_A store0 "\<lparr>status = 201, body = Obj [(''user'', user_json user_A)]\<rparr>"
        store_A login_A env0 "''s3cret''"]
  by (simp add: eval_defs jwt_sign_1h jwt_decode_def)

text \<open>
  Claim C4. A registration with an email that a stored user already has is answered with
  400 and the message "User already exists", and the store is returned as it was: no
  record is added and none is modified. (The lookup has to resolve; it stands before the
  \<^verbatim>\<open>try\<close>.)
\<close>

theorem register_duplicate_rejected:
  assumes "\<not> nullish (req_body req)"
    and "rejects s (Call_User_findOne (get_prop (req_body req) ''email'')) = None"
    and "get_prop (req_body req) ''email'' \<in> u_email ` set (users s)"
  shows "register_handler env req s =
           (Responded \<lparr>status = 400, body = Obj [(''message'', Str ''User already exists'')]\<rparr>, s)"
proof -
  from assms(3) have "find (\<lambda>u. u_email u = get_prop (req_body req) ''email'') (users s) \<noteq> None"
    by (auto simp: find_None_iff)
  then obtain u where "find (\<lambda>u. u_email u = get_prop (req_body req) ''email'') (users s) = Some u"
    by blast
  with assms(1,2) show ?thesis
    by (simp add: register_handler_def Let_def User_findOne_def)
qed

theorem register_duplicate_witness:
  "\<not> nullish (req_body register_A)
   \<and> rejects store_A (Call_User_findOne (Str ''a@x.com'')) = None
   \<and> Str ''a@x.com'' \<in> u_email ` set (users store_A)
   \<and> register_handler env0 register_A store_A =
       (Responded \<lparr>status = 400, body = Obj [(''message'', Str ''User already exists'')]\<rparr>, store_A)"
  using register_duplicate_rejected [of register_A store_A env0]
  by (simp add: register_A_def post_def store_A_def user_A_def)




text \<open>
  Claim C6. After a registration answered with 201, the password field of the new record
  is the string that \<^verbatim>\<open>bcrypt.hash\<close> returned for the submitted password at cost 10, the
  record found under the email from then on carries it, and the response body is the
  record as the store returned it and nothing else. The field is not the plaintext as long
  as \<^verbatim>\<open>bcrypt.hash\<close> does not return its own input.
\<close>

theorem registered_password_is_hash:
  assumes reg: "register_handler env req s = (Responded r, s')" and created: "status r = 201"
    and lib: "\<forall>h. bcrypt_hash env (get_prop (req_body req) ''password'') 10 = Inr h
                \<longrightarrow> Str h \<noteq> get_prop (req_body req) ''password''"
  shows "\<exists>h user.
           bcrypt_hash env (get_prop (req_body req) ''password'') 10 = Inr h
         \<and> users s' = users s @ [user]
         \<and> u_password user = Str h
         \<and> u_password user \<noteq> get_prop (req_body req) ''password''
         \<and> User_findOne s' (get_prop (req_body req) ''email'') = Inr (Some user)
         \<and> body r = Obj [(''user'', user_json user)]"
proof -
  from register_201 [OF reg created] obtain h user where
    f: "User_findOne s (get_prop (req_body req) ''email'') = Inr None"
    and h: "bcrypt_hash env (get_prop (req_body req) ''password'') 10 = Inr h"
    and c: "User_create s (get_prop (req_body req) ''name'') (get_prop (req_body req) ''email'')
                 (Str h) (get_prop (req_body req) ''role'') = Inr (user, s')"
    and b: "body r = Obj [(''user'', user_json user)]"
    by blast
  have us: "users s' = users s @ [user]" and pw: "u_password user = Str h"
    using User_create_Inr [OF c] by simp_all
  have ne: "u_password user \<noteq> get_prop (req_body req) ''password''"
    using lib h pw by simp
  have f': "User_findOne s' (get_prop (req_body req) ''email'') = Inr (Some user)"
    by (rule findOne_after_create [OF f c])
  from h us pw ne f' b show ?thesis by blast
qed

theorem registered_password_witness:
  "register_handler env0 register_A store0 =
     (Responded \<lparr>status = 201, body = Obj [(''user'', user_json user_A)]\<rparr>, store_A)
   \<and> bcrypt_hash env0 (Str ''pw'') 10 = Inr ''$2b$10$wp''
   \<and> Str ''$2b$10$wp'' \<noteq> Str ''pw''
   \<and> users store_A = users store0 @ [user_A]
   \<and> u_password user_A = Str ''$2b$10$wp''
   \<and> User_findOne store_A (Str ''a@x.com'') = Inr (Some user_A)"
  using registered_password_is_hash
    [of env0 register_A store0 "\<lparr>status = 201, body = Obj [(''user'', user_json user_A)]\<rparr>" store_A]
  by (simp add: eval_defs)

text \<open>
  Claim C7, amended. The claim as stated fails: the handlers answer a caught exception
  with \<^verbatim>\<open>res.status(500).json({err})\<close>, and the body is the JSON form of the caught
  error object itself, all its own enumerable properties, whatever they are. This holds
  for the exception of \<^verbatim>\<open>User.create\<close> in the registration and for those of
  \<^verbatim>\<open>User.findOne\<close>, \<^verbatim>\<open>bcrypt.compare\<close> and \<^verbatim>\<open>jwt.sign\<close> in the login. (The message and
  the stack of an error are not enumerable and are not in the body.)
\<close>

theorem caught_error_is_sent_as_json:
  "(\<not> nullish (req_body req)
      \<and> User_findOne s (get_prop (req_body req) ''email'') = Inr None
      \<and> bcrypt_hash env (get_prop (req_body req) ''password'') 10 = Inr h
      \<and> User_create s (get_prop (req_body req) ''name'') (get_prop (req_body req) ''email'') (Str h)
           (get_prop (req_body req) ''role'') = Inl err
    \<longrightarrow> register_handler env req s =
          (Responded \<lparr>status = 500, body = Obj [(''err'', Obj (own_props err))]\<rparr>, s))
   \<and> (\<not> nullish (req_body req)
      \<and> User_findOne s (get_prop (req_body req) ''email'') = Inl err
    \<longrightarrow> login_handler env req s =
          (Responded \<lparr>status = 500, body = Obj [(''err'', Obj (own_props err))]\<rparr>, s))
   \<and> (\<not> nullish (req_body req)
      \<and> User_findOne s (get_prop (req_body req) ''email'') = Inr (Some user)
      \<and> bcrypt_compare env (get_prop (req_body req) ''password'') (u_password user) = Inl err
    \<longrightarrow> login_handler env req s =
          (Responded \<lparr>status = 500, body = Obj [(''err'', Obj (own_props err))]\<rparr>, s))
   \<and> (\<not> nullish (req_body req)
      \<and> User_findOne s (get_prop (req_body req) ''email'') = Inr (Some user)
      \<and> bcrypt_compare env (get_prop (req_body req) ''password'') (u_password user) = Inr True
      \<and> jwt_sign [(''id'', Num (int (u_id user))), (''role'', u_role user)]
           (SECRET_KEY env) ''1h'' (now env) = Inl err
    \<longrightarrow> login_handler env req s =
          (Responded \<lparr>status = 500, body = Obj [(''err'', Obj (own_props err))]\<rparr>, s))"
  by (simp add: register_handler_def login_handler_def Let_def exn_json_def)

theorem caught_error_witness:
  "User_create store_create_fails (Str ''A'') (Str ''a@x.com'') (Str ''$2b$10$wp'') Undefined = Inl driver_error
   \<and> register_handler env0 register_A store_create_fails =
        (Responded \<lparr>status = 500, body = Obj [(''err'', Obj (own_props driver_error))]\<rparr>, store_create_fails)
   \<and> User_findOne store_down (Str ''a@x.com'') = Inl driver_error
   \<and> login_handler env0 login_A store_down =
        (Responded \<lparr>status = 500, body = Obj [(''err'', Obj (own_props driver_error))]\<rparr>, store_down)
   \<and> bcrypt_compare env0 Undefined (u_password user_A) = Inl (Exn ''data and hash must be strings'' [] [])
   \<and> login_handler env0 login_no_password store_A =
        (Responded \<lparr>status = 500, body = Obj [(''err'', Obj [])]\<rparr>, store_A)
   \<and> jwt_sign [(''id'', Num 1), (''role'', Undefined)] None ''1h'' 1700000000 =
        Inl (Exn ''secretOrPrivateKey must have a value'' [] [])
   \<and> login_handler (env0\<lparr>SECRET_KEY := None\<rparr>) login_A store_A =
        (Responded \<lparr>status = 500, body = Obj [(''err'', Obj [])]\<rparr>, store_A)"
  using caught_error_is_sent_as_json
      [where req = register_A and s = store_create_fails and env = env0 and h = "''$2b$10$wp''"
         and err = driver_error]
    caught_error_is_sent_as_json
      [where req = login_A and s = store_down and env = env0 and err = driver_error]
    caught_error_is_sent_as_json
      [where req = login_no_password and s = store_A and env = env0 and user = user_A
         and err = "Exn ''data and hash must be strings'' [] []"]
    caught_error_is_sent_as_json
      [where req = login_A and s = store_A and env = "env0\<lparr>SECRET_KEY := None\<rparr>"
         and user = user_A and err = "Exn ''secretOrPrivateKey must have a value'' [] []"]
  by (simp add: eval_defs store_down_def store_create_fails_def login_no_password_def jwt_sign_def)

text \<open>
  With a refused database connection, the login and the registration put the ORM's error
  object, and inside it the driver's (address, port, error code), into the body.
\<close>

theorem error_body_counterexample:
  "fst (login_handler env0 login_A store_down) =
     Responded \<lparr>status = 500,
                body = Obj [(''err'',
                  Obj [(''name'', Str ''SequelizeConnectionRefusedError''),
                       (''parent'', Obj [(''errno'', Num (- 111)), (''code'', Str ''ECONNREFUSED''),
                                         (''syscall'', Str ''connect''), (''address'', Str ''127.0.0.1''),
                                         (''port'', Num 3306), (''fatal'', Bool True)])])]\<rparr>
   \<and> fst (register_handler env0 register_A store_create_fails) =
     Responded \<lparr>status = 500,
                body = Obj [(''err'',
                  Obj [(''name'', Str ''SequelizeConnectionRefusedError''),
                       (''parent'', Obj [(''errno'', Num (- 111)), (''code'', Str ''ECONNREFUSED''),
                                         (''syscall'', Str ''connect''), (''address'', Str ''127.0.0.1''),
                                         (''port'', Num 3306), (''fatal'', Bool True)])])]\<rparr>"
  by (simp add: eval_defs store_down_def store_create_fails_def driver_error_def exn_json_def)

text \<open>
  Claim C8. The claim asks that a failure of the hashing inside the registration be
  contained. In the code \<^verbatim>\<open>bcrypt.hash\<close> is awaited before the \<^verbatim>\<open>try\<close>: when it fails
  (the lookup having found no user), the handler's promise rejects with the error of
  \<^verbatim>\<open>bcrypt\<close>, no response is sent by the handler, and the store is as it was.
\<close>

theorem register_hash_failure_escapes:
  assumes "\<not> nullish (req_body req)"
    and "User_findOne s (get_prop (req_body req) ''email'') = Inr None"
    and "bcrypt_hash env (get_prop (req_body req) ''password'') 10 = Inl err"
  shows "register_handler env req s = (Rejected err, s)"
  using assms by (simp add: register_handler_def Let_def)

theorem register_hash_failure_witness:
  "\<not> nullish (req_body register_no_password)
   \<and> User_findOne store0 (Str ''a@x.com'') = Inr None
   \<and> bcrypt_hash env0 Undefined 10 = Inl (Exn ''data and salt arguments required'' [] [])
   \<and> register_handler env0 register_no_password store0 =
       (Rejected (Exn ''data and salt arguments required'' [] []), store0)"
  using register_hash_failure_escapes
    [of register_no_password store0 env0 "Exn ''data and salt arguments required'' [] []"]
  by (simp add: register_no_password_def eval_defs)

subsection \<open>Tokens and the gate\<close>

text \<open>
  Claim C3. A token issued by a login at clock reading \<open>T\<close> carries \<open>iat = T\<close> and
  \<open>exp = T + 3600\<close>, whatever the environment, the request and the store. The Token
  Verifier, under the same secret, accepts it at \<open>T\<close> plus 59 minutes and rejects it at
  \<open>T\<close> plus 61 minutes; it accepts it exactly at the clock readings before \<open>T + 3600\<close>.
\<close>

theorem login_token_expires_after_one_hour:
  assumes "login_handler env req s = (Responded r, s')" and "status r = 200"
  shows "\<exists>payload key ident.
           get_prop (body r) ''token'' = Jwt payload key
         \<and> SECRET_KEY env = Some key
         \<and> get_prop (jwt_decode (Jwt payload key)) ''iat'' = Num (int (now env))
         \<and> get_prop (jwt_decode (Jwt payload key)) ''exp'' = Num (int (now env) + 3600)
         \<and> verify (env\<lparr>now := now env + 59 * 60\<rparr>) (Some (Jwt payload key)) = Inr ident
         \<and> verify (env\<lparr>now := now env + 61 * 60\<rparr>) (Some (Jwt payload key)) = Inl Invalid
         \<and> (\<forall>t. verify (env\<lparr>now := t\<rparr>) (Some (Jwt payload key)) =
                  (if t < now env + 3600 then Inr ident else Inl Invalid))"
proof -
  from login_200 [OF assms] obtain user token where
    sign: "jwt_sign [(''id'', Num (int (u_id user))), (''role'', u_role user)]
              (SECRET_KEY env) ''1h'' (now env) = Inr token"
    and b: "body r = Obj [(''user'', user_json user), (''token'', token)]"
    by blast
  let ?payload = "filter (\<lambda>kv. snd kv \<noteq> Undefined) [(''id'', Num (int (u_id user))), (''role'', u_role user)]
               @ [(''iat'', Num (int (now env))), (''exp'', Num (int (now env + 3600)))]"
  from jwt_sign_Inr [OF sign] obtain key where
    k: "SECRET_KEY env = Some key" and tok: "token = Jwt ?payload key"
    by blast
  let ?ident = "\<lparr>subjectId = Num (int (u_id user)), role = u_role user\<rparr>"
  have v: "\<And>t. verify (env\<lparr>now := t\<rparr>) (Some (Jwt ?payload key)) =
                  (if t < now env + 3600 then Inr ?ident else Inl Invalid)"
    using verify_issued [OF k, of _ "Num (int (u_id user))" "u_role user" "now env"] by simp
  have g: "get_prop (body r) ''token'' = Jwt ?payload key"
    using b tok by simp
  have i: "get_prop (jwt_decode (Jwt ?payload key)) ''iat'' = Num (int (now env))"
    by (simp add: jwt_decode_def)
  have e: "get_prop (jwt_decode (Jwt ?payload key)) ''exp'' = Num (int (now env) + 3600)"
    by (simp add: jwt_decode_def)
  have v59: "verify (env\<lparr>now := now env + 59 * 60\<rparr>) (Some (Jwt ?payload key)) = Inr ?ident"
    by (subst v) simp
  have v61: "verify (env\<lparr>now := now env + 61 * 60\<rparr>) (Some (Jwt ?payload key)) = Inl Invalid"
    by (subst v) simp
  from g k i e v59 v61 v show ?thesis by blast
qed

theorem login_token_expiry_witness:
  "login_handler env0 login_A store_A =
     (Responded \<lparr>status = 200, body = Obj [(''user'', user_json user_A), (''token'', token_A)]\<rparr>, store_A)
   \<and> verify (env0\<lparr>now := 1700000000 + 59 * 60\<rparr>) (Some token_A) = Inr \<lparr>subjectId = Num 1, role = Undefined\<rparr>
   \<and> verify (env0\<lparr>now := 1700000000 + 61 * 60\<rparr>) (Some token_A) = Inl Invalid"
  using login_token_expires_after_one_hour
    [of env0 login_A store_A
        "\<lparr>status = 200, body = Obj [(''user'', user_json user_A), (''token'', token_A)]\<rparr>" store_A]
  by (simp add: eval_defs jwt_sign_1h verify_def token_A_def)

text \<open>
  Claim C2. On \<^verbatim>\<open>DELETE /categories/:id\<close>, a request without a bearer token is answered
  with 401, and a request with a valid token whose role is not "admin" with 403; in both
  cases the store is unchanged and the answer is the same for any handler behind the
  gate, so the handler does not run. The Role Authorizer permits an identity exactly when
  its role is a member of the allowed roles.
\<close>

theorem delete_category_gate:
  "(bearer req = None
    \<longrightarrow> category_delete_route msg env req s =
          (Responded \<lparr>status = 401, body = msg Invalid\<rparr>, s)
      \<and> gated msg env [Str ''admin''] handler req s =
          (Responded \<lparr>status = 401, body = msg Invalid\<rparr>, s))
   \<and> (verify env (bearer req) = Inr ident \<and> role ident \<notin> set [Str ''admin'']
    \<longrightarrow> category_delete_route msg env req s =
          (Responded \<lparr>status = 403, body = msg Forbidden\<rparr>, s)
      \<and> gated msg env [Str ''admin''] handler req s =
          (Responded \<lparr>status = 403, body = msg Forbidden\<rparr>, s))
   \<and> ((authorize ident allowedRoles = Inr ()) = (role ident \<in> set allowedRoles))"
  by (simp add: category_delete_route_def gated_def verify_def authorize_def auth_error_status_def)

theorem delete_category_gate_witness:
  "bearer (on_id_1 None Undefined) = None
   \<and> category_delete_route msg0 env0 (on_id_1 None Undefined) store0 =
        (Responded \<lparr>status = 401, body = msg0 Invalid\<rparr>, store0)
   \<and> verify env0 (bearer (on_id_1 (Some token_user) Undefined)) =
        Inr \<lparr>subjectId = Num 1, role = Str ''user''\<rparr>
   \<and> Str ''user'' \<notin> set [Str ''admin'']
   \<and> category_delete_route msg0 env0 (on_id_1 (Some token_user) Undefined) store0 =
        (Responded \<lparr>status = 403, body = msg0 Forbidden\<rparr>, store0)
   \<and> authorize \<lparr>subjectId = Num 1, role = Str ''admin''\<rparr> [Str ''admin''] = Inr ()
   \<and> authorize \<lparr>subjectId = Num 1, role = Str ''user''\<rparr> [Str ''admin''] = Inl Forbidden"
  using delete_category_gate
      [where req = "on_id_1 None Undefined" and msg = msg0 and env = env0 and s = store0
         and handler = category_delete_handler]
    delete_category_gate
      [where req = "on_id_1 (Some token_user) Undefined" and msg = msg0 and env = env0
         and s = store0 and handler = category_delete_handler
         and ident = "\<lparr>subjectId = Num 1, role = Str ''user''\<rparr>"]
    delete_category_gate
      [where ident = "\<lparr>subjectId = Num 1, role = Str ''admin''\<rparr>"
         and allowedRoles = "[Str ''admin'']"]
    delete_category_gate
      [where ident = "\<lparr>subjectId = Num 1, role = Str ''user''\<rparr>"
         and allowedRoles = "[Str ''admin'']"]
  by (simp add: on_id_1_def env0_def token_user_def verify_def authorize_def)

end
